theory Spec2Isabelle
  imports Main
begin

section \<open>Session lifecycle and authenticated request pipeline\<close>

text \<open>
  The development embeds the two modules of the hostel-booking front end that carry the
  session: the authentication context (\<^verbatim>\<open>AuthProvider\<close> with its restore effect,
  \<^verbatim>\<open>login\<close> and \<^verbatim>\<open>logout\<close>) and the axios instance \<^verbatim>\<open>api\<close> with its request and
  response interceptors. Both act on the browser: the origin's \<^verbatim>\<open>localStorage\<close> and
  \<^verbatim>\<open>window.location\<close>. The browser is an explicit value that every operation takes and
  returns.
\<close>

subsection \<open>Data\<close>

datatype Role = student | provider | administrator

text \<open>The interface \<^verbatim>\<open>User\<close>; the field \<^verbatim>\<open>id\<close> is \<open>user_id\<close> here.\<close>

record User =
  user_id :: int
  username :: string
  email :: string
  role :: Role

text \<open>
  \<^verbatim>\<open>JSON.parse\<close> and \<^verbatim>\<open>JSON.stringify\<close> belong to the platform, not to the application,
  and are parameters of the operations that call them. A call of \<^verbatim>\<open>JSON.parse\<close> either
  throws a \<^verbatim>\<open>SyntaxError\<close> or returns a value, and \<^verbatim>\<open>null\<close> is one of the values it
  returns: \<open>Parsed None\<close>. The type \<open>'u\<close> stands for the values other than \<^verbatim>\<open>null\<close>;
  the annotation \<^verbatim>\<open>User | null\<close> of the source instantiates it with \<open>User\<close>.
\<close>

datatype 'u parse_result = SyntaxError | Parsed "'u option"

text \<open>The three \<^verbatim>\<open>useState\<close> cells of \<^verbatim>\<open>AuthProvider\<close>; \<open>None\<close> is \<^verbatim>\<open>null\<close>.\<close>

record 'u AuthState =
  user :: "'u option"
  token :: "string option"
  isLoading :: bool

definition initial_state :: "'u AuthState" where
  "initial_state = \<lparr>user = None, token = None, isLoading = True\<rparr>"

text \<open>
  The browser: \<open>localStorage\<close> maps a key to its value, and \<open>navigations\<close> lists, oldest
  first, the paths assigned to \<^verbatim>\<open>window.location.href\<close>. Such an assignment loads the
  page anew; the application's router is not involved.
\<close>

record Browser =
  localStorage :: "string \<Rightarrow> string option"
  navigations :: "string list"

definition getItem :: "Browser \<Rightarrow> string \<Rightarrow> string option" where
  "getItem w k = localStorage w k"

definition setItem :: "string \<Rightarrow> string \<Rightarrow> Browser \<Rightarrow> Browser" where
  "setItem k v w = w\<lparr>localStorage := (localStorage w)(k \<mapsto> v)\<rparr>"

definition removeItem :: "string \<Rightarrow> Browser \<Rightarrow> Browser" where
  "removeItem k w = w\<lparr>localStorage := (localStorage w)(k := None)\<rparr>"

definition assign_href :: "string \<Rightarrow> Browser \<Rightarrow> Browser" where
  "assign_href p w = w\<lparr>navigations := navigations w @ [p]\<rparr>"

text \<open>
  The source tests what \<^verbatim>\<open>getItem\<close> returns with \<^verbatim>\<open>if (x)\<close> and \<^verbatim>\<open>x && y\<close>. For a
  string or \<^verbatim>\<open>null\<close> the test fails on \<^verbatim>\<open>null\<close> and on the empty string.
\<close>

definition truthy :: "string option \<Rightarrow> bool" where
  "truthy v = (case v of None \<Rightarrow> False | Some s \<Rightarrow> s \<noteq> [])"

subsection \<open>The authentication context\<close>

text \<open>
  The effect that \<^verbatim>\<open>AuthProvider\<close> runs once after mounting. When \<^verbatim>\<open>JSON.parse\<close> throws,
  \<^verbatim>\<open>setUser\<close> and \<^verbatim>\<open>setToken\<close> are not reached and the \<^verbatim>\<open>catch\<close> block removes the
  three keys. \<^verbatim>\<open>setIsLoading(false)\<close> follows in every case.
\<close>

definition restore :: "(string \<Rightarrow> 'u parse_result) \<Rightarrow> 'u AuthState \<times> Browser \<Rightarrow> 'u AuthState \<times> Browser" where
  "restore parse c =
     (let s = fst c; w = snd c;
          savedUser = getItem w ''user'';
          savedToken = getItem w ''access_token'';
          c' = (if truthy savedUser \<and> truthy savedToken then
                  (case savedUser of
                     None \<Rightarrow> (s, w)
                   | Some su \<Rightarrow>
                       (case parse su of
                          Parsed v \<Rightarrow> (s\<lparr>user := v, token := savedToken\<rparr>, w)
                        | SyntaxError \<Rightarrow>
                            (s, removeItem ''refresh_token''
                                  (removeItem ''access_token'' (removeItem ''user'' w)))))
                else (s, w))
      in ((fst c')\<lparr>isLoading := False\<rparr>, snd c'))"

text \<open>A page load: the component state starts from its initial values and the effect runs.\<close>

definition mount :: "(string \<Rightarrow> 'u parse_result) \<Rightarrow> Browser \<Rightarrow> 'u AuthState \<times> Browser" where
  "mount parse w = restore parse (initial_state, w)"

definition login :: "('u \<Rightarrow> string) \<Rightarrow> 'u \<Rightarrow> string \<Rightarrow> string \<Rightarrow> 'u AuthState \<times> Browser \<Rightarrow> 'u AuthState \<times> Browser" where
  "login stringify userData accessToken refreshToken c =
     ((fst c)\<lparr>user := Some userData, token := Some accessToken\<rparr>,
      setItem ''refresh_token'' refreshToken
        (setItem ''access_token'' accessToken
          (setItem ''user'' (stringify userData) (snd c))))"

definition logout :: "'u AuthState \<times> Browser \<Rightarrow> 'u AuthState \<times> Browser" where
  "logout c =
     ((fst c)\<lparr>user := None, token := None\<rparr>,
      assign_href ''/''
        (removeItem ''refresh_token''
          (removeItem ''access_token'' (removeItem ''user'' (snd c)))))"

subsection \<open>The request pipeline\<close>

text \<open>
  The request configuration, as far as the interceptors read and write it: the optional
  \<^verbatim>\<open>url\<close>, the headers, and the mark \<^verbatim>\<open>_retry\<close> (\<open>retry\<close> here; a mark never set reads
  as false).
\<close>

record RequestConfig =
  url :: "string option"
  headers :: "string \<Rightarrow> string option"
  retry :: bool

record Response =
  status :: int
  data :: string

text \<open>
  The error axios rejects with. A failure without an answer has no \<open>response\<close>; an error
  that has one carries the configuration of its request.
\<close>

record AxiosError =
  config :: RequestConfig
  response :: "Response option"

datatype ('a, 'e) promise = Fulfilled 'a | Rejected 'e

text \<open>\<^verbatim>\<open>String.prototype.includes\<close>: the pattern occurs as a contiguous part.\<close>

fun includes_str :: "string \<Rightarrow> string \<Rightarrow> bool" where
  "includes_str [] p = (p = [])"
| "includes_str (c # cs) p = (take (length p) (c # cs) = p \<or> includes_str cs p)"

definition isAuthEndpoint :: "RequestConfig \<Rightarrow> bool" where
  "isAuthEndpoint cfg =
     (case url cfg of
        None \<Rightarrow> False
      | Some u \<Rightarrow> includes_str u ''/register/'' \<or> includes_str u ''/login/'')"

definition request_interceptor :: "Browser \<Rightarrow> RequestConfig \<Rightarrow> RequestConfig" where
  "request_interceptor w cfg =
     (if \<not> isAuthEndpoint cfg then
        (case getItem w ''access_token'' of
           None \<Rightarrow> cfg
         | Some t \<Rightarrow>
             if truthy (Some t)
             then cfg\<lparr>headers := (headers cfg)(''Authorization'' \<mapsto> ''Bearer '' @ t)\<rparr>
             else cfg)
      else cfg)"

definition response_fulfilled :: "Response \<Rightarrow> (Response, AxiosError) promise" where
  "response_fulfilled r = Fulfilled r"

text \<open>
  The error handler of the response interceptor. Both the \<^verbatim>\<open>try\<close> block and its
  \<^verbatim>\<open>catch\<close> block remove the three keys and assign \<^verbatim>\<open>/login\<close>; nothing in the
  \<^verbatim>\<open>try\<close> block throws, so the block runs once. The handler ends with
  \<^verbatim>\<open>Promise.reject(error)\<close> on every path.
\<close>

definition response_rejected :: "Browser \<Rightarrow> AxiosError \<Rightarrow> (Response, AxiosError) promise \<times> Browser" where
  "response_rejected w e =
     (let originalRequest = config e in
      if (case response e of None \<Rightarrow> False | Some r \<Rightarrow> status r = 401) \<and> \<not> retry originalRequest
      then
        (let e' = e\<lparr>config := originalRequest\<lparr>retry := True\<rparr>\<rparr>;
             refreshToken = getItem w ''refresh_token''
         in if truthy refreshToken
            then (Rejected e',
                  assign_href ''/login''
                    (removeItem ''user''
                      (removeItem ''refresh_token'' (removeItem ''access_token'' w))))
            else (Rejected e', w))
      else (Rejected e, w))"

subsection \<open>Runs of the application\<close>

text \<open>
  What can happen to the session between two observations: the page loads (the component
  state is created anew), the restore effect runs, a view calls \<^verbatim>\<open>login\<close> or
  \<^verbatim>\<open>logout\<close>, or a request made through \<^verbatim>\<open>api\<close> fails and the response interceptor
  handles the error. The interceptor does not reach the component state.
\<close>

datatype 'u action =
    PageLoad
  | Restore
  | Login 'u string string
  | Logout
  | ResponseError AxiosError

definition step :: "(string \<Rightarrow> 'u parse_result) \<Rightarrow> ('u \<Rightarrow> string) \<Rightarrow> 'u action \<Rightarrow> 'u AuthState \<times> Browser \<Rightarrow> 'u AuthState \<times> Browser" where
  "step parse stringify a c =
     (case a of
        PageLoad \<Rightarrow> (initial_state, snd c)
      | Restore \<Rightarrow> restore parse c
      | Login u t r \<Rightarrow> login stringify u t r c
      | Logout \<Rightarrow> logout c
      | ResponseError e \<Rightarrow> (fst c, snd (response_rejected (snd c) e)))"

fun run :: "(string \<Rightarrow> 'u parse_result) \<Rightarrow> ('u \<Rightarrow> string) \<Rightarrow> 'u action list \<Rightarrow> 'u AuthState \<times> Browser \<Rightarrow> 'u AuthState \<times> Browser" where
  "run parse stringify [] c = c"
| "run parse stringify (a # as) c = run parse stringify as (step parse stringify a c)"

text \<open>A browser profile that has never visited the origin.\<close>

definition fresh :: Browser where
  "fresh = \<lparr>localStorage = (\<lambda>k. None), navigations = []\<rparr>"

text \<open>
  The store keeps its promise to the restore effect when the value under \<^verbatim>\<open>user\<close>, if
  there is one, does not deserialize to \<^verbatim>\<open>null\<close>.
\<close>

definition user_entry_ok :: "(string \<Rightarrow> 'u parse_result) \<Rightarrow> Browser \<Rightarrow> bool" where
  "user_entry_ok parse w =
     (case getItem w ''user'' of None \<Rightarrow> True | Some su \<Rightarrow> parse su \<noteq> Parsed None)"

text \<open>
  The invariant of a run: \<open>user\<close> and \<open>token\<close> are \<^verbatim>\<open>null\<close> together, and the store
  keeps its promise.
\<close>

definition session_inv :: "(string \<Rightarrow> 'u parse_result) \<Rightarrow> 'u AuthState \<times> Browser \<Rightarrow> bool" where
  "session_inv parse c =
     (((user (fst c) = None) = (token (fst c) = None)) \<and> user_entry_ok parse (snd c))"

subsection \<open>A serializer and parsers for concrete runs\<close>

text \<open>
  The text \<^verbatim>\<open>JSON.stringify\<close> produces for an object with the four fields of \<^verbatim>\<open>User\<close>
  in the order of the interface, for identifiers of fewer than 22 digits and for names and
  addresses in printable ASCII; and parsers given by a finite table (a text outside the
  table is malformed). They instantiate the parameters where the model is run on concrete
  data; the theorems hold for every parser and serializer.
\<close>

fun decimal :: "nat \<Rightarrow> string" where
  "decimal n =
     (if n < 10 then [''0123456789'' ! n]
      else decimal (n div 10) @ [''0123456789'' ! (n mod 10)])"

definition number_text :: "int \<Rightarrow> string" where
  "number_text i = (if i < 0 then CHR ''-'' # decimal (nat (- i)) else decimal (nat i))"

definition quote_char :: "char \<Rightarrow> string" where
  \<open>quote_char c = (if c = CHR ''"'' \<or> c = CHR 0x5C then [CHR 0x5C, c] else [c])\<close>

definition quoted :: "string \<Rightarrow> string" where
  \<open>quoted s = ''"'' @ concat (map quote_char s) @ ''"''\<close>

definition role_text :: "Role \<Rightarrow> string" where
  "role_text r =
     (case r of student \<Rightarrow> ''student'' | provider \<Rightarrow> ''provider''
      | administrator \<Rightarrow> ''administrator'')"

definition stringify_user :: "User \<Rightarrow> string" where
  \<open>stringify_user u =
     ''{"id":'' @ number_text (user_id u) @ '',"username":'' @ quoted (username u) @
     '',"email":'' @ quoted (email u) @ '',"role":'' @ quoted (role_text (role u)) @ ''}''\<close>

definition parse_table :: "(string \<times> 'u option) list \<Rightarrow> string \<Rightarrow> 'u parse_result" where
  "parse_table tbl s = (case map_of tbl s of None \<Rightarrow> SyntaxError | Some v \<Rightarrow> Parsed v)"

definition ama :: User where
  "ama = \<lparr>user_id = 7, username = ''ama'', email = ''ama@knust.edu.gh'', role = student\<rparr>"

definition ama_json :: string where
  \<open>ama_json = ''{"id":7,"username":"ama","email":"ama@knust.edu.gh","role":"student"}''\<close>

definition parse_ama :: "string \<Rightarrow> User parse_result" where
  "parse_ama = parse_table [(ama_json, Some ama), (''null'', None)]"

text \<open>
  A store with the given entries and no navigation yet; two requests as the views issue
  them; the error of a request answered with status 401.
\<close>

definition stored :: "(string \<times> string) list \<Rightarrow> Browser" where
  "stored kvs = \<lparr>localStorage = map_of kvs, navigations = []\<rparr>"

definition bookings_request :: RequestConfig where
  "bookings_request =
     \<lparr>url = Some ''/bookings/my/'',
      headers = [''Content-Type'' \<mapsto> ''application/json''],
      retry = False\<rparr>"

definition register_request :: RequestConfig where
  "register_request =
     \<lparr>url = Some ''/register/student/'',
      headers = [''Content-Type'' \<mapsto> ''application/json''],
      retry = False\<rparr>"

definition unauthorized :: "RequestConfig \<Rightarrow> AxiosError" where
  "unauthorized cfg = \<lparr>config = cfg, response = Some \<lparr>status = 401, data = []\<rparr>\<rparr>"

section \<open>Properties\<close>

subsection \<open>Basic facts\<close>

lemmas storage_defs = getItem_def setItem_def removeItem_def assign_href_def

lemma truthy_simps [simp]: "truthy None = False" "truthy (Some s) = (s \<noteq> [])"
  by (simp_all add: truthy_def)

text \<open>\<open>includes_str\<close> decides what \<^verbatim>\<open>includes\<close> means: the pattern lies somewhere inside.\<close>

lemma includes_str_iff: "includes_str s p \<longleftrightarrow> (\<exists>a b. s = a @ p @ b)"
proof (induction s)
  case Nil
  then show ?case by auto
next
  case (Cons c cs)
  show ?case
  proof
    assume "includes_str (c # cs) p"
    then consider "take (length p) (c # cs) = p" | "includes_str cs p" by auto
    then show "\<exists>a b. c # cs = a @ p @ b"
    proof cases
      case 1
      then have "c # cs = [] @ p @ drop (length p) (c # cs)"
        by (metis append_Nil append_take_drop_id)
      then show ?thesis by blast
    next
      case 2
      then obtain a b where "cs = a @ p @ b" using Cons.IH by blast
      then have "c # cs = (c # a) @ p @ b" by simp
      then show ?thesis by blast
    qed
  next
    assume "\<exists>a b. c # cs = a @ p @ b"
    then obtain a b where ab: "c # cs = a @ p @ b" by blast
    show "includes_str (c # cs) p"
    proof (cases a)
      case Nil
      then have "take (length p) (c # cs) = p" using ab by simp
      then show ?thesis by simp
    next
      case (Cons x a')
      then have "cs = a' @ p @ b" using ab by simp
      then have "includes_str cs p" using Cons.IH by blast
      then show ?thesis by simp
    qed
  qed
qed

lemma stringify_ama: "stringify_user ama = ama_json"
  by (simp add: stringify_user_def ama_def ama_json_def number_text_def quoted_def
      quote_char_def role_text_def)

lemma stringify_user_nonempty: "stringify_user u \<noteq> []"
  by (simp add: stringify_user_def)

lemma ama_json_nonempty: "ama_json \<noteq> []"
  by (simp add: ama_json_def)

lemma parse_ama_json: "parse_ama ama_json = Parsed (Some ama)"
  by (simp add: parse_ama_def parse_table_def)

lemma parse_ama_not_null: "parse_ama (stringify_user u) \<noteq> Parsed None"
  by (simp add: parse_ama_def parse_table_def stringify_user_def)

lemma parse_ama_malformed: "parse_ama ''{id:'' = SyntaxError"
  by (simp add: parse_ama_def parse_table_def ama_json_def)

subsection \<open>Login and logout\<close>

text \<open>
  C5. After \<^verbatim>\<open>login(u, a, r)\<close>, from any state, the store holds the serialization of \<open>u\<close>
  under \<^verbatim>\<open>user\<close>, \<open>a\<close> under \<^verbatim>\<open>access_token\<close> and \<open>r\<close> under \<^verbatim>\<open>refresh_token\<close>, every
  other key is as before, and the context has user \<open>u\<close> and token \<open>a\<close>, both present.
\<close>

theorem login_stores_and_authenticates:
  "user (fst (login stringify u a r c)) = Some u \<and>
   token (fst (login stringify u a r c)) = Some a \<and>
   isLoading (fst (login stringify u a r c)) = isLoading (fst c) \<and>
   localStorage (snd (login stringify u a r c)) =
     (localStorage (snd c))(''user'' \<mapsto> stringify u, ''access_token'' \<mapsto> a, ''refresh_token'' \<mapsto> r) \<and>
   getItem (snd (login stringify u a r c)) ''user'' = Some (stringify u) \<and>
   getItem (snd (login stringify u a r c)) ''access_token'' = Some a \<and>
   getItem (snd (login stringify u a r c)) ''refresh_token'' = Some r \<and>
   navigations (snd (login stringify u a r c)) = navigations (snd c)"
  by (simp add: login_def storage_defs)

text \<open>
  C6. After \<^verbatim>\<open>logout()\<close>, from any state, the user and the token in memory are
  \<^verbatim>\<open>null\<close>, none of the three keys is in the store, the root path \<^verbatim>\<open>/\<close> has been assigned
  to \<^verbatim>\<open>window.location.href\<close> (a load of the page, not a navigation of the router), and
  the page load that follows restores no session: no user, no token, loading over, the
  store as \<^verbatim>\<open>logout\<close> left it.
\<close>

theorem logout_clears_and_reloads:
  "user (fst (logout c)) = None \<and> token (fst (logout c)) = None \<and>
   getItem (snd (logout c)) ''user'' = None \<and>
   getItem (snd (logout c)) ''access_token'' = None \<and>
   getItem (snd (logout c)) ''refresh_token'' = None \<and>
   navigations (snd (logout c)) = navigations (snd c) @ [''/''] \<and>
   mount parse (snd (logout c)) =
     (\<lparr>user = None, token = None, isLoading = False\<rparr>, snd (logout c))"
  by (simp add: logout_def mount_def restore_def Let_def initial_state_def storage_defs)

subsection \<open>Restoring the session at startup\<close>

text \<open>
  C4. A well-formed persisted triple is read as what a login leaves in the store: under
  \<^verbatim>\<open>user\<close> the serialization of a user record \<open>u\<close>, a text that is not empty and that
  \<^verbatim>\<open>JSON.parse\<close> turns back into \<open>u\<close>; under \<^verbatim>\<open>access_token\<close> a token \<open>a\<close> that is not
  empty; under \<^verbatim>\<open>refresh_token\<close> a token \<open>r\<close>. Restoring from such a store yields the
  context with user \<open>u\<close> and token \<open>a\<close>, loading over, and leaves the store, the refresh
  token included, as it was.
\<close>

theorem restore_round_trip:
  assumes "parse (stringify u) = Parsed (Some u)" and "stringify u \<noteq> []" and "a \<noteq> []"
    and "getItem w ''user'' = Some (stringify u)"
    and "getItem w ''access_token'' = Some a"
    and "getItem w ''refresh_token'' = Some r"
  shows "mount parse w = (\<lparr>user = Some u, token = Some a, isLoading = False\<rparr>, w)"
  using assms by (simp add: mount_def restore_def Let_def initial_state_def)

text \<open>The round trip on concrete data: \<^verbatim>\<open>login\<close> on a fresh browser, then a page load.\<close>

theorem restore_round_trip_witness:
  "mount parse_ama (snd (login stringify_user ama ''a1'' ''r1'' (initial_state, fresh))) =
     (\<lparr>user = Some ama, token = Some ''a1'', isLoading = False\<rparr>,
      stored [(''refresh_token'', ''r1''), (''access_token'', ''a1''), (''user'', ama_json)])"
  using restore_round_trip [of parse_ama stringify_user ama "''a1''"
      "snd (login stringify_user ama ''a1'' ''r1'' (initial_state, fresh))" "''r1''"]
  by (simp add: stringify_ama parse_ama_json ama_json_nonempty login_def storage_defs
      fresh_def stored_def fun_eq_iff)

text \<open>
  C2, as the claim states it, fails: a malformed value under \<^verbatim>\<open>user\<close> with no access token
  beside it never reaches \<^verbatim>\<open>JSON.parse\<close>, because the effect first tests
  \<^verbatim>\<open>savedUser && savedToken\<close>; the store keeps the malformed value and the refresh token.
\<close>

theorem restore_malformed_counterexample:
  "parse_ama ''{id:'' = SyntaxError \<and>
   getItem (snd (mount parse_ama (stored [(''user'', ''{id:''), (''refresh_token'', ''r1'')])))
     ''user'' = Some ''{id:'' \<and>
   getItem (snd (mount parse_ama (stored [(''user'', ''{id:''), (''refresh_token'', ''r1'')])))
     ''refresh_token'' = Some ''r1''"
  by (simp add: parse_ama_malformed mount_def restore_def Let_def stored_def getItem_def)

text \<open>
  C2, amended. For every malformed value under \<^verbatim>\<open>user\<close> that is not the empty string and
  is stored beside an access token that is not empty, the restore effect ends with no
  user and no token in the context, loading over, and with none of the three keys in the
  store; the parse error is consumed by the effect, whose result is an ordinary state.
\<close>

theorem restore_malformed_wipes:
  assumes "getItem w ''user'' = Some su" and "su \<noteq> []" and "parse su = SyntaxError"
    and "getItem w ''access_token'' = Some st" and "st \<noteq> []"
  shows "fst (mount parse w) = \<lparr>user = None, token = None, isLoading = False\<rparr> \<and>
         getItem (snd (mount parse w)) ''user'' = None \<and>
         getItem (snd (mount parse w)) ''access_token'' = None \<and>
         getItem (snd (mount parse w)) ''refresh_token'' = None \<and>
         navigations (snd (mount parse w)) = navigations w"
  using assms by (simp add: mount_def restore_def Let_def initial_state_def storage_defs)

theorem restore_malformed_wipes_witness:
  "fst (mount parse_ama
         (stored [(''user'', ''{id:''), (''access_token'', ''a1''), (''refresh_token'', ''r1'')])) =
      \<lparr>user = None, token = None, isLoading = False\<rparr> \<and>
   snd (mount parse_ama
         (stored [(''user'', ''{id:''), (''access_token'', ''a1''), (''refresh_token'', ''r1'')])) =
      fresh"
  using restore_malformed_wipes
      [of "stored [(''user'', ''{id:''), (''access_token'', ''a1''), (''refresh_token'', ''r1'')]"
          "''{id:''" parse_ama "''a1''"]
  by (simp add: parse_ama_malformed mount_def restore_def Let_def initial_state_def
      storage_defs stored_def fresh_def fun_eq_iff)

text \<open>
  C10. When exactly one of the keys \<^verbatim>\<open>user\<close> and \<^verbatim>\<open>access_token\<close> is in the store at
  startup, whatever the value under it and whatever \<^verbatim>\<open>JSON.parse\<close> would make of it, the
  restore effect leaves the whole browser untouched and ends with no user, no token and
  loading over.
\<close>

theorem restore_single_key_untouched:
  assumes "(getItem w ''user'' = None) \<noteq> (getItem w ''access_token'' = None)"
  shows "mount parse w = (\<lparr>user = None, token = None, isLoading = False\<rparr>, w)"
  using assms
  by (auto simp add: mount_def restore_def initial_state_def Let_def truthy_def
      split: option.splits)

theorem restore_single_key_untouched_witness:
  "parse_ama ''{id:'' = SyntaxError \<and>
   mount parse_ama (stored [(''user'', ''{id:'')]) =
     (\<lparr>user = None, token = None, isLoading = False\<rparr>, stored [(''user'', ''{id:'')])"
  using restore_single_key_untouched [of "stored [(''user'', ''{id:'')]" parse_ama]
  by (simp add: parse_ama_malformed stored_def getItem_def)

subsection \<open>User and token go together\<close>

text \<open>Each operation keeps \<open>session_inv\<close>.\<close>

lemma restore_inv:
  assumes "session_inv parse c"
  shows "session_inv parse (restore parse c)"
proof (cases "truthy (getItem (snd c) ''user'') \<and> truthy (getItem (snd c) ''access_token'')")
  case False
  then show ?thesis
    using assms by (auto simp add: session_inv_def restore_def Let_def)
next
  case True
  then obtain su st where su: "getItem (snd c) ''user'' = Some su" "su \<noteq> []"
    and st: "getItem (snd c) ''access_token'' = Some st" "st \<noteq> []"
    by (auto simp add: truthy_def split: option.splits)
  show ?thesis
  proof (cases "parse su")
    case SyntaxError
    then show ?thesis
      using assms su st
      by (simp add: session_inv_def restore_def Let_def user_entry_ok_def storage_defs)
  next
    case (Parsed v)
    moreover have "v \<noteq> None"
      using assms su Parsed by (auto simp add: session_inv_def user_entry_ok_def)
    ultimately show ?thesis
      using assms su st
      by (auto simp add: session_inv_def restore_def Let_def user_entry_ok_def)
  qed
qed

lemma login_inv:
  assumes "parse (stringify u) \<noteq> Parsed None"
  shows "session_inv parse (login stringify u a r c)"
  using assms by (simp add: session_inv_def login_def user_entry_ok_def storage_defs)

lemma logout_inv: "session_inv parse (logout c)"
  by (simp add: session_inv_def logout_def user_entry_ok_def storage_defs)

lemma page_load_inv:
  assumes "session_inv parse c"
  shows "session_inv parse (initial_state, snd c)"
  using assms by (simp add: session_inv_def initial_state_def)

lemma response_rejected_user_entry:
  assumes "user_entry_ok parse w"
  shows "user_entry_ok parse (snd (response_rejected w e))"
  using assms by (simp add: response_rejected_def Let_def user_entry_ok_def storage_defs)

lemma response_error_inv:
  assumes "session_inv parse c"
  shows "session_inv parse (fst c, snd (response_rejected (snd c) e))"
  using assms response_rejected_user_entry [of parse "snd c" e]
  by (simp add: session_inv_def)

lemma step_inv:
  assumes "\<forall>u. parse (stringify u) \<noteq> Parsed None" and "session_inv parse c"
  shows "session_inv parse (step parse stringify a c)"
proof (cases a)
  case PageLoad
  then show ?thesis using assms(2) by (simp add: step_def page_load_inv)
next
  case Restore
  then show ?thesis using assms(2) by (simp add: step_def restore_inv)
next
  case (Login u t r)
  then show ?thesis using assms(1) by (simp add: step_def login_inv)
next
  case Logout
  then show ?thesis by (simp add: step_def logout_inv)
next
  case (ResponseError e)
  then show ?thesis using assms(2) by (simp add: step_def response_error_inv)
qed

lemma run_inv:
  assumes "\<forall>u. parse (stringify u) \<noteq> Parsed None" and "session_inv parse c"
  shows "session_inv parse (run parse stringify acts c)"
  using assms(2)
proof (induction acts arbitrary: c)
  case Nil
  then show ?case by simp
next
  case (Cons a acts)
  then show ?case using step_inv [OF assms(1)] by simp
qed

lemma start_inv:
  assumes "user_entry_ok parse w"
  shows "session_inv parse (initial_state, w)"
  using assms by (simp add: session_inv_def initial_state_def)

lemma fresh_user_entry_ok: "user_entry_ok parse fresh"
  by (simp add: fresh_def user_entry_ok_def getItem_def)

text \<open>
  C8, as the claim states it, fails. The restore effect takes the store as the page load
  finds it, and passes on whatever \<^verbatim>\<open>JSON.parse\<close> returns without looking at it. The
  text \<^verbatim>\<open>null\<close> under \<^verbatim>\<open>user\<close> deserializes without an error, to \<^verbatim>\<open>null\<close>: beside an
  access token, the effect ends with the token set and no user.
\<close>

theorem user_and_token_null_entry_counterexample:
  "parse_ama ''null'' = Parsed None \<and>
   user (fst (run parse_ama stringify_user [PageLoad, Restore]
     (initial_state, stored [(''user'', ''null''), (''access_token'', ''a1'')]))) = None \<and>
   token (fst (run parse_ama stringify_user [PageLoad, Restore]
     (initial_state, stored [(''user'', ''null''), (''access_token'', ''a1'')]))) = Some ''a1''"
  by (simp add: step_def restore_def Let_def initial_state_def stored_def getItem_def
      parse_ama_def parse_table_def ama_json_def)

text \<open>
  C8, amended. In every state that a run of page loads, restore effects, logins, logouts
  and handled response errors reaches, starting with a page load in a browser whose store
  has no \<^verbatim>\<open>user\<close> entry that deserializes to \<^verbatim>\<open>null\<close>, the user and the token in memory
  are both present or both absent. A fresh browser is such a start, and the operations
  keep the store so, because the serialization of a user record never deserializes to
  \<^verbatim>\<open>null\<close>: this is what the platform's \<^verbatim>\<open>JSON\<close> functions guarantee for an object.
\<close>

theorem user_and_token_together:
  assumes "\<forall>u. parse (stringify u) \<noteq> Parsed None" and "user_entry_ok parse w"
  shows "(user (fst (run parse stringify acts (initial_state, w))) = None) =
         (token (fst (run parse stringify acts (initial_state, w))) = None)"
  using run_inv [OF assms(1) start_inv [OF assms(2)], of acts] by (simp add: session_inv_def)

theorem user_and_token_together_witness:
  "user (fst (run parse_ama stringify_user
       [PageLoad, Restore, Login ama ''a1'' ''r1'', PageLoad, Restore] (initial_state, fresh))) =
     Some ama \<and>
   token (fst (run parse_ama stringify_user
       [PageLoad, Restore, Login ama ''a1'' ''r1'', PageLoad, Restore] (initial_state, fresh))) =
     Some ''a1'' \<and>
   user (fst (run parse_ama stringify_user
       [PageLoad, Restore, Login ama ''a1'' ''r1'', Logout, PageLoad, Restore]
       (initial_state, fresh))) = None \<and>
   token (fst (run parse_ama stringify_user
       [PageLoad, Restore, Login ama ''a1'' ''r1'', Logout, PageLoad, Restore]
       (initial_state, fresh))) = None"
proof -
  have codec: "\<forall>u. parse_ama (stringify_user u) \<noteq> Parsed None"
    by (simp add: parse_ama_not_null)
  show ?thesis
    using user_and_token_together [OF codec fresh_user_entry_ok,
        of "[PageLoad, Restore, Login ama ''a1'' ''r1'', PageLoad, Restore]"]
    by (simp add: step_def restore_def login_def logout_def Let_def storage_defs fresh_def
          initial_state_def stringify_ama parse_ama_json ama_json_nonempty)
qed

subsection \<open>The request interceptor\<close>

text \<open>
  C3, as the claim states it, fails: the interceptor tests the stored token with
  \<^verbatim>\<open>if (token)\<close>, and the empty string under \<^verbatim>\<open>access_token\<close> does not pass. The request
  to a non-bootstrap endpoint then carries no \<^verbatim>\<open>Authorization\<close> header, where the claim
  has \<^verbatim>\<open>Bearer\<close> followed by the stored token.
\<close>

theorem request_empty_token_counterexample:
  "getItem (stored [(''access_token'', [])]) ''access_token'' = Some [] \<and>
   \<not> isAuthEndpoint bookings_request \<and>
   headers (request_interceptor (stored [(''access_token'', [])]) bookings_request)
     ''Authorization'' = None"
  by (simp add: request_interceptor_def isAuthEndpoint_def bookings_request_def stored_def
      getItem_def)

text \<open>
  C3, amended. For every outgoing request: if its URL contains \<^verbatim>\<open>/register/\<close> or
  \<^verbatim>\<open>/login/\<close>, the interceptor returns it as it came, so that a request issued without an
  \<^verbatim>\<open>Authorization\<close> header carries none, whatever the store holds; if its URL is missing
  or contains neither fragment, and a token \<open>t\<close> that is not the empty string is in the
  store, the request leaves with the header \<^verbatim>\<open>Authorization: Bearer t\<close> and is otherwise
  as it came.
\<close>

theorem request_interceptor_bearer:
  "(isAuthEndpoint cfg \<longrightarrow>
      request_interceptor w cfg = cfg \<and>
      (headers cfg ''Authorization'' = None \<longrightarrow>
         headers (request_interceptor w cfg) ''Authorization'' = None)) \<and>
   (\<not> isAuthEndpoint cfg \<and> getItem w ''access_token'' = Some t \<and> t \<noteq> [] \<longrightarrow>
      request_interceptor w cfg =
        cfg\<lparr>headers := (headers cfg)(''Authorization'' \<mapsto> ''Bearer '' @ t)\<rparr> \<and>
      headers (request_interceptor w cfg) ''Authorization'' = Some (''Bearer '' @ t))"
  by (simp add: request_interceptor_def)

theorem request_interceptor_bearer_witness:
  "isAuthEndpoint register_request \<and>
   headers (request_interceptor (stored [(''access_token'', ''a1'')]) register_request)
     ''Authorization'' = None \<and>
   \<not> isAuthEndpoint bookings_request \<and>
   headers (request_interceptor (stored [(''access_token'', ''a1'')]) bookings_request)
     ''Authorization'' = Some ''Bearer a1''"
  using request_interceptor_bearer [of register_request "stored [(''access_token'', ''a1'')]" "''a1''"]
        request_interceptor_bearer [of bookings_request "stored [(''access_token'', ''a1'')]" "''a1''"]
  by (simp add: isAuthEndpoint_def register_request_def bookings_request_def stored_def
      getItem_def)

text \<open>
  C7. A request to a non-bootstrap endpoint, made while the store has no access token,
  leaves the interceptor as it came: no \<^verbatim>\<open>Authorization\<close> header is attached, and a
  request issued without one has none. When its answer has status 401 and the store has
  no refresh token, the response handler leaves the store and the location alone and
  rejects with the same error, whose request now bears the retry mark.
\<close>

theorem no_token_no_header_no_wipe:
  assumes "\<not> isAuthEndpoint cfg"
    and "getItem w ''access_token'' = None"
    and "getItem w ''refresh_token'' = None"
  shows "request_interceptor w cfg = cfg \<and>
         (headers cfg ''Authorization'' = None \<longrightarrow>
            headers (request_interceptor w cfg) ''Authorization'' = None) \<and>
         response_rejected w
             \<lparr>config = request_interceptor w cfg, response = Some \<lparr>status = 401, data = d\<rparr>\<rparr> =
           (Rejected \<lparr>config = (request_interceptor w cfg)\<lparr>retry := True\<rparr>,
                      response = Some \<lparr>status = 401, data = d\<rparr>\<rparr>, w)"
  using assms by (simp add: request_interceptor_def response_rejected_def)

theorem no_token_no_header_no_wipe_witness:
  "headers (request_interceptor (stored [(''user'', ama_json)]) bookings_request)
     ''Authorization'' = None \<and>
   response_rejected (stored [(''user'', ama_json)])
       (unauthorized (request_interceptor (stored [(''user'', ama_json)]) bookings_request)) =
     (Rejected (unauthorized (bookings_request\<lparr>retry := True\<rparr>)), stored [(''user'', ama_json)])"
  using no_token_no_header_no_wipe [of bookings_request "stored [(''user'', ama_json)]" "[]"]
  by (simp add: isAuthEndpoint_def bookings_request_def stored_def getItem_def unauthorized_def
      request_interceptor_def response_rejected_def)

subsection \<open>The response interceptor\<close>

text \<open>
  C1, as the claim states it, fails: the handler tests the stored refresh token with
  \<^verbatim>\<open>if (refreshToken)\<close>, and the empty string under \<^verbatim>\<open>refresh_token\<close> does not pass. On
  a first answer with status 401 the store then keeps its three keys and no path is
  assigned to the location.
\<close>

theorem response_empty_refresh_counterexample:
  "getItem (stored [(''user'', ama_json), (''access_token'', ''a1''), (''refresh_token'', [])])
     ''refresh_token'' = Some [] \<and>
   snd (response_rejected
          (stored [(''user'', ama_json), (''access_token'', ''a1''), (''refresh_token'', [])])
          (unauthorized bookings_request)) =
     stored [(''user'', ama_json), (''access_token'', ''a1''), (''refresh_token'', [])]"
  by (simp add: response_rejected_def unauthorized_def bookings_request_def stored_def
      getItem_def)

text \<open>
  C1, amended. For every failed request whose answer has status 401 and whose request
  does not bear the retry mark, when a refresh token that is not the empty string is in
  the store: the handler marks the request as retried, removes the keys \<^verbatim>\<open>user\<close>,
  \<^verbatim>\<open>access_token\<close> and \<^verbatim>\<open>refresh_token\<close>, assigns \<^verbatim>\<open>/login\<close> to the location, and
  rejects with the error. Any later failure of the request so marked, in any store, is
  rejected with the store and the location untouched.
\<close>

theorem response_401_handled_once:
  assumes "response e = Some rsp" and "status rsp = 401" and "\<not> retry (config e)"
    and "getItem w ''refresh_token'' = Some r" and "r \<noteq> []"
  shows "fst (response_rejected w e) = Rejected (e\<lparr>config := (config e)\<lparr>retry := True\<rparr>\<rparr>) \<and>
         getItem (snd (response_rejected w e)) ''user'' = None \<and>
         getItem (snd (response_rejected w e)) ''access_token'' = None \<and>
         getItem (snd (response_rejected w e)) ''refresh_token'' = None \<and>
         navigations (snd (response_rejected w e)) = navigations w @ [''/login''] \<and>
         (\<forall>e2 w2. config e2 = (config e)\<lparr>retry := True\<rparr> \<longrightarrow>
            response_rejected w2 e2 = (Rejected e2, w2))"
  using assms by (simp add: response_rejected_def storage_defs)

theorem response_401_handled_once_witness:
  "response_rejected
       (stored [(''user'', ama_json), (''access_token'', ''a1''), (''refresh_token'', ''r1'')])
       (unauthorized bookings_request) =
     (Rejected (unauthorized (bookings_request\<lparr>retry := True\<rparr>)),
      fresh\<lparr>navigations := [''/login'']\<rparr>) \<and>
   response_rejected (fresh\<lparr>navigations := [''/login'']\<rparr>)
       (unauthorized (bookings_request\<lparr>retry := True\<rparr>)) =
     (Rejected (unauthorized (bookings_request\<lparr>retry := True\<rparr>)),
      fresh\<lparr>navigations := [''/login'']\<rparr>)"
  using response_401_handled_once [of "unauthorized bookings_request"
      "\<lparr>status = 401, data = []\<rparr>"
      "stored [(''user'', ama_json), (''access_token'', ''a1''), (''refresh_token'', ''r1'')]"
      "''r1''"]
  by (simp add: response_rejected_def unauthorized_def bookings_request_def stored_def
      fresh_def storage_defs fun_eq_iff)

text \<open>
  C9. Whatever the error and the store, the handler ends by rejecting with the error it
  was given: with the error as it is, or, when it has just handled a 401, with the same
  error after setting the retry mark on its request. It never fulfils the promise.
\<close>

theorem response_error_always_rejected:
  "fst (response_rejected w e) = Rejected e \<or>
   fst (response_rejected w e) = Rejected (e\<lparr>config := (config e)\<lparr>retry := True\<rparr>\<rparr>)"
  by (simp add: response_rejected_def Let_def)

end
